theory Spec2Isabelle
  imports Main "HOL-Library.Word" "HOL-Library.Finite_Map"
begin

section \<open>Strings, numbers and paths\<close>

text \<open>
  The service is TypeScript on Node. Strings are modelled as \<open>string\<close> (ASCII
  characters), file contents as lists of bytes. The functions of this section embed
  the JavaScript and Node library calls the handlers make: \<open>!x\<close> on a string,
  \<open>String.prototype.split\<close>, \<open>Array.prototype.join\<close>, \<open>toLowerCase\<close>,
  the decimal rendering of an integer inside a template literal, \<open>parseInt(s, 10)\<close>,
  and \<open>path.join\<close>, \<open>path.basename\<close>, \<open>path.extname\<close> in their POSIX
  variant.
\<close>

type_synonym path = string
type_synonym bytes = "8 word list"

text \<open>\<open>s.split(c)\<close> for a one-character separator: never the empty array.\<close>

fun split_js :: "char \<Rightarrow> string \<Rightarrow> string list" where
  "split_js c [] = [[]]"
| "split_js c (x # xs) =
     (if x = c then [] # split_js c xs
      else (case split_js c xs of
              [] \<Rightarrow> [[x]]
            | seg # segs \<Rightarrow> (x # seg) # segs))"

text \<open>\<open>segs.join(sep)\<close>.\<close>

fun join_js :: "string \<Rightarrow> string list \<Rightarrow> string" where
  "join_js sep [] = []"
| "join_js sep [s] = s"
| "join_js sep (s # t # rest) = s @ sep @ join_js sep (t # rest)"

text \<open>\<open>toLowerCase\<close> on ASCII: the letters A to Z move to a to z.\<close>

definition lower_char :: "char \<Rightarrow> char" where
  "lower_char c =
     (case map_of (zip ''ABCDEFGHIJKLMNOPQRSTUVWXYZ'' ''abcdefghijklmnopqrstuvwxyz'') c of
        None \<Rightarrow> c
      | Some l \<Rightarrow> l)"

definition toLowerCase :: "string \<Rightarrow> string" where
  "toLowerCase s = map lower_char s"

text \<open>The decimal digits of a natural number, and of an integer as a template
  literal prints it.\<close>

definition digit_char :: "nat \<Rightarrow> char" where
  "digit_char d = ''0123456789'' ! d"

fun show_nat :: "nat \<Rightarrow> string" where
  "show_nat n =
     (if n < 10 then [digit_char n] else show_nat (n div 10) @ [digit_char (n mod 10)])"

declare show_nat.simps [simp del]

definition show_int :: "int \<Rightarrow> string" where
  "show_int i = (if i < 0 then CHR ''-'' # show_nat (nat (- i)) else show_nat (nat i))"

text \<open>\<open>parseInt(s, 10)\<close>: leading white space is skipped, one sign is read, then the
  longest run of decimal digits; with no digit the result is \<open>NaN\<close>, here \<open>None\<close>.\<close>

definition is_digit :: "char \<Rightarrow> bool" where
  "is_digit c = (c \<in> set ''0123456789'')"

definition is_space :: "char \<Rightarrow> bool" where
  "is_space c = (c = CHR '' '' \<or> c = CHR 0x09 \<or> c = CHR 0x0A \<or> c = CHR 0x0B
                 \<or> c = CHR 0x0C \<or> c = CHR 0x0D)"

definition digit_value :: "char \<Rightarrow> nat" where
  "digit_value c = (case map_of (zip ''0123456789'' [0 ..< 10]) c of None \<Rightarrow> 0 | Some d \<Rightarrow> d)"

definition digits_value :: "string \<Rightarrow> nat" where
  "digits_value ds = foldl (\<lambda>acc c. 10 * acc + digit_value c) 0 ds"

definition parse_digits :: "string \<Rightarrow> nat option" where
  "parse_digits s =
     (let ds = takeWhile is_digit s in if ds = [] then None else Some (digits_value ds))"

definition parseInt :: "string \<Rightarrow> int option" where
  "parseInt s =
     (case dropWhile is_space s of
        [] \<Rightarrow> None
      | c # rest \<Rightarrow>
          if c = CHR ''-'' then map_option (\<lambda>n. - int n) (parse_digits rest)
          else if c = CHR ''+'' then map_option int (parse_digits rest)
          else map_option int (parse_digits (c # rest)))"

text \<open>Paths. \<open>path_join\<close> is \<open>path.join\<close> on two segments that need no
  normalisation (no empty, \<open>.\<close> or \<open>..\<close> segment, no doubled separator).
  \<open>basename\<close> drops trailing separators and keeps what follows the last one.
  \<open>parent_dir\<close> is the directory a path's last segment lives in.\<close>

definition path_join :: "path \<Rightarrow> string \<Rightarrow> path" where
  "path_join d name = d @ ''/'' @ name"

definition strip_trailing_slashes :: "path \<Rightarrow> path" where
  "strip_trailing_slashes p = rev (dropWhile (\<lambda>c. c = CHR ''/'') (rev p))"

definition basename :: "path \<Rightarrow> string" where
  "basename p = rev (takeWhile (\<lambda>c. c \<noteq> CHR ''/'') (rev (strip_trailing_slashes p)))"

definition parent_dir :: "path \<Rightarrow> path" where
  "parent_dir p = rev (drop 1 (dropWhile (\<lambda>c. c \<noteq> CHR ''/'') (rev p)))"

text \<open>\<open>path.extname\<close>: from the last dot of the basename to its end; empty when the
  basename has no dot, when its only dot is its first character, and for \<open>..\<close>.\<close>

definition extname :: "path \<Rightarrow> string" where
  "extname p =
     (let base = basename p;
          after = rev (takeWhile (\<lambda>c. c \<noteq> CHR ''.'') (rev base))
      in if CHR ''.'' \<notin> set base then []
         else if length after + 1 = length base then []
         else if base = ''..'' then []
         else CHR ''.'' # after)"

section \<open>AttachmentResolver\<close>

text \<open>The table of \<open>getMimeType\<close> (src/index.ts), in the order of the source.\<close>

definition mimeTypes :: "(string \<times> string) list" where
  "mimeTypes =
     [(''.jpg'', ''image/jpeg''),
      (''.jpeg'', ''image/jpeg''),
      (''.png'', ''image/png''),
      (''.gif'', ''image/gif''),
      (''.pdf'', ''application/pdf''),
      (''.doc'', ''application/msword''),
      (''.docx'', ''application/vnd.openxmlformats-officedocument.wordprocessingml.document''),
      (''.xls'', ''application/vnd.ms-excel''),
      (''.xlsx'', ''application/vnd.openxmlformats-officedocument.spreadsheetml.sheet''),
      (''.txt'', ''text/plain''),
      (''.zip'', ''application/zip''),
      (''.mp3'', ''audio/mpeg''),
      (''.mp4'', ''video/mp4'')]"

text \<open>\<open>mimeTypes[extension] || "application/octet-stream"\<close>: a missing key and an
  empty value both give the fallback.\<close>

definition getMimeType :: "path \<Rightarrow> string" where
  "getMimeType filePath =
     (let extension = toLowerCase (extname filePath)
      in case map_of mimeTypes extension of
           None \<Rightarrow> ''application/octet-stream''
         | Some m \<Rightarrow> if m = [] then ''application/octet-stream'' else m)"

text \<open>The display filename of an attachment, as the send handler derives it:
  \<open>path.basename(filePath).split("-").slice(1).join("-")\<close>.\<close>

definition displayName :: "path \<Rightarrow> string" where
  "displayName filePath = join_js ''-'' (drop 1 (split_js CHR ''-'' (basename filePath)))"

text \<open>The name multer's disk storage gives a directly uploaded file:
  \<open>file.fieldname + "-" + Date.now() + "-" + Math.round(Math.random() * 1e9) + "-" +
  file.originalname\<close>; the clock and the random number are inputs.\<close>

definition multer_filename :: "string \<Rightarrow> nat \<Rightarrow> nat \<Rightarrow> string \<Rightarrow> string" where
  "multer_filename fieldname now rnd originalname =
     fieldname @ ''-'' @ show_nat now @ ''-'' @ show_nat rnd @ ''-'' @ originalname"

text \<open>\<open>buffer.toString("base64")\<close>: three bytes become four characters of the
  standard alphabet, the tail is padded with \<open>=\<close>.\<close>

definition b64_char :: "nat \<Rightarrow> char" where
  "b64_char n =
     ''ABCDEFGHIJKLMNOPQRSTUVWXYZabcdefghijklmnopqrstuvwxyz0123456789+/'' ! n"

fun base64 :: "bytes \<Rightarrow> string" where
  "base64 [] = []"
| "base64 [a] =
     (let n = unat a * 65536
      in [b64_char (n div 262144), b64_char (n div 4096 mod 64), CHR ''='', CHR ''=''])"
| "base64 [a, b] =
     (let n = unat a * 65536 + unat b * 256
      in [b64_char (n div 262144), b64_char (n div 4096 mod 64),
          b64_char (n div 64 mod 64), CHR ''=''])"
| "base64 (a # b # c # rest) =
     (let n = unat a * 65536 + unat b * 256 + unat c
      in [b64_char (n div 262144), b64_char (n div 4096 mod 64),
          b64_char (n div 64 mod 64), b64_char (n mod 64)] @ base64 rest)"

section \<open>The record store (src/db/db.ts)\<close>

text \<open>
  The two SQLite tables are lists of rows in insertion order. The recipients column
  holds \<open>JSON.stringify(recipients)\<close> and every reader parses it back, so the row
  keeps the list itself. \<open>INTEGER PRIMARY KEY AUTOINCREMENT\<close> hands out one more
  than the largest id the table ever held; that number is the \<open>_seq\<close> field.
  \<open>sent_at\<close> defaults to the time of the insert, an input of \<open>saveEmail\<close>.
  Statements are taken to succeed: no model of a locked or full database.
\<close>

datatype email_status = Pending | Sent | Failed

record Email =
  em_sender :: string
  em_recipients :: "string list"
  em_subject :: string
  em_body :: string
  em_status :: email_status

record email_row =
  e_id :: nat
  e_sender :: string
  e_recipients :: "string list"
  e_subject :: string
  e_body :: string
  e_sent_at :: nat
  e_status :: email_status

record Attachment =
  at_emailId :: nat
  at_filename :: string
  at_content :: bytes
  at_contentType :: string

record attachment_row =
  a_id :: nat
  a_email_id :: nat
  a_filename :: string
  a_content :: bytes
  a_content_type :: string

record database =
  emails :: "email_row list"
  attachments :: "attachment_row list"
  emails_seq :: nat
  attachments_seq :: nat

definition saveEmail :: "nat \<Rightarrow> Email \<Rightarrow> database \<Rightarrow> nat \<times> database" where
  "saveEmail now email d =
     (let lastInsertRowid = emails_seq d + 1;
          row = \<lparr> e_id = lastInsertRowid,
                  e_sender = em_sender email,
                  e_recipients = em_recipients email,
                  e_subject = em_subject email,
                  e_body = em_body email,
                  e_sent_at = now,
                  e_status = em_status email \<rparr>
      in (lastInsertRowid, d\<lparr> emails := emails d @ [row], emails_seq := lastInsertRowid \<rparr>))"

definition updateEmailStatus :: "nat \<Rightarrow> email_status \<Rightarrow> database \<Rightarrow> database" where
  "updateEmailStatus i st d =
     d\<lparr> emails := map (\<lambda>r. if e_id r = i then r\<lparr> e_status := st \<rparr> else r) (emails d) \<rparr>"

text \<open>\<open>ORDER BY sent_at DESC\<close>; rows of one timestamp stay in insertion order here
  (SQLite leaves their order open).\<close>

definition getEmails :: "database \<Rightarrow> email_row list" where
  "getEmails d = sort_key (\<lambda>r. - int (e_sent_at r)) (emails d)"

definition getEmailById :: "nat \<Rightarrow> database \<Rightarrow> email_row option" where
  "getEmailById i d = find (\<lambda>r. e_id r = i) (emails d)"

definition saveAttachment :: "Attachment \<Rightarrow> database \<Rightarrow> nat \<times> database" where
  "saveAttachment attachment d =
     (let lastInsertRowid = attachments_seq d + 1;
          row = \<lparr> a_id = lastInsertRowid,
                  a_email_id = at_emailId attachment,
                  a_filename = at_filename attachment,
                  a_content = at_content attachment,
                  a_content_type = at_contentType attachment \<rparr>
      in (lastInsertRowid,
          d\<lparr> attachments := attachments d @ [row], attachments_seq := lastInsertRowid \<rparr>))"

definition getAttachmentsByEmailId :: "nat \<Rightarrow> database \<Rightarrow> attachment_row list" where
  "getAttachmentsByEmailId emailId d = filter (\<lambda>a. a_email_id a = emailId) (attachments d)"

definition deleteAttachmentsByEmailId :: "nat \<Rightarrow> database \<Rightarrow> database" where
  "deleteAttachmentsByEmailId emailId d =
     d\<lparr> attachments := filter (\<lambda>a. a_email_id a \<noteq> emailId) (attachments d) \<rparr>"

text \<open>What AUTOINCREMENT guarantees of a table: no row has an id above the sequence.\<close>

definition db_ok :: "database \<Rightarrow> bool" where
  "db_ok d = list_all (\<lambda>r. e_id r \<le> emails_seq d) (emails d)"

section \<open>The file system\<close>

text \<open>
  Files are a finite map from paths to contents, directories a finite set of paths.
  The synchronous calls of Node's \<open>fs\<close> either return or throw; a throw is the
  \<open>Inl\<close> of the result. \<open>mkdirSync\<close> is the recursive variant and is only called
  on a path that does not exist.

  A write stream does nothing to the file system while the handler runs:
  \<open>fs.createWriteStream\<close> returns the stream at once and opens the file later,
  \<open>write\<close> only queues its data. The stream is therefore a value of its own, the path
  and the bytes queued so far, and the handler returns it with the response. The
  stream settles after the handler has answered: the file is opened with the flag
  \<open>w\<close> (created or truncated) and the queue is flushed, which has the effect and the
  failures of one \<open>writeFileSync\<close> of the queued bytes. A failed open is an \<open>error\<close>
  event nobody listens to: the process exits and nothing is written.
\<close>

datatype fs_error = ENOENT | EISDIR | ENOTDIR | ENOTEMPTY

record filesystem =
  files :: "(path, bytes) fmap"
  dirs :: "path fset"

definition existsSync :: "path \<Rightarrow> filesystem \<Rightarrow> bool" where
  "existsSync p f = (p |\<in>| fmdom (files f) \<or> p |\<in>| dirs f)"

definition mkdirSync :: "path \<Rightarrow> filesystem \<Rightarrow> filesystem" where
  "mkdirSync p f = f\<lparr> dirs := finsert p (dirs f) \<rparr>"

definition readFileSync :: "path \<Rightarrow> filesystem \<Rightarrow> fs_error + bytes" where
  "readFileSync p f =
     (case fmlookup (files f) p of
        Some content \<Rightarrow> Inr content
      | None \<Rightarrow> Inl (if p |\<in>| dirs f then EISDIR else ENOENT))"

definition writeFileSync :: "path \<Rightarrow> bytes \<Rightarrow> filesystem \<Rightarrow> fs_error + filesystem" where
  "writeFileSync p content f =
     (if p |\<in>| dirs f then Inl EISDIR
      else if parent_dir p |\<in>| fmdom (files f) then Inl ENOTDIR
      else if parent_dir p |\<notin>| dirs f then Inl ENOENT
      else Inr (f\<lparr> files := fmupd p content (files f) \<rparr>))"

definition unlinkSync :: "path \<Rightarrow> filesystem \<Rightarrow> fs_error + filesystem" where
  "unlinkSync p f =
     (if p |\<in>| fmdom (files f) then Inr (f\<lparr> files := fmdrop p (files f) \<rparr>)
      else Inl (if p |\<in>| dirs f then EISDIR else ENOENT))"

definition dir_entries :: "path \<Rightarrow> filesystem \<Rightarrow> path fset" where
  "dir_entries p f = ffilter (\<lambda>q. parent_dir q = p) (fmdom (files f) |\<union>| dirs f)"

definition rmdirSync :: "path \<Rightarrow> filesystem \<Rightarrow> fs_error + filesystem" where
  "rmdirSync p f =
     (if p |\<in>| fmdom (files f) then Inl ENOTDIR
      else if p |\<notin>| dirs f then Inl ENOENT
      else if dir_entries p f \<noteq> {||} then Inl ENOTEMPTY
      else Inr (f\<lparr> dirs := dirs f |-| {|p|} \<rparr>))"

record write_stream =
  ws_path :: path
  ws_queued :: bytes

definition createWriteStream :: "path \<Rightarrow> write_stream" where
  "createWriteStream p = \<lparr> ws_path = p, ws_queued = [] \<rparr>"

definition stream_write :: "bytes \<Rightarrow> write_stream \<Rightarrow> write_stream" where
  "stream_write chunk s = s\<lparr> ws_queued := ws_queued s @ chunk \<rparr>"

definition stream_settle :: "write_stream \<Rightarrow> filesystem \<Rightarrow> fs_error + filesystem" where
  "stream_settle s f = writeFileSync (ws_path s) (ws_queued s) f"

section \<open>The handlers (src/index.ts)\<close>

text \<open>
  A handler takes the request and the state it can touch and returns the new state
  with the response it sends. \<open>uploadsDir\<close> is \<open>path.join(__dirname, "temp_uploads")\<close>,
  a parameter here; the start-up code creates it.
\<close>

datatype response =
    EmailsJson "email_row list"
  | EmailJson email_row
  | NotFound string
  | BadRequest string
  | ServerError string "string option"
  | SendOk string nat
  | ChunkOk string
  | CompleteOk string path string string

subsection \<open>ChunkStore: POST /upload/chunk\<close>

text \<open>The query parameters arrive as strings or not at all; the body is the raw
  buffer \<open>express.raw\<close> read.\<close>

record chunk_request =
  q_chunkIndex :: "string option"
  q_totalChunks :: "string option"
  q_fileName :: "string option"
  q_fileId :: "string option"
  q_body :: bytes

definition parseInt_param :: "string option \<Rightarrow> int option" where
  "parseInt_param x = (case x of None \<Rightarrow> None | Some s \<Rightarrow> parseInt s)"

definition chunk_name :: "int \<Rightarrow> string" where
  "chunk_name i = ''chunk-'' @ show_int i"

definition upload_chunk :: "path \<Rightarrow> chunk_request \<Rightarrow> filesystem \<Rightarrow> filesystem \<times> response" where
  "upload_chunk uploadsDir rq f =
     (case (parseInt_param (q_chunkIndex rq), parseInt_param (q_totalChunks rq),
            q_fileName rq, q_fileId rq) of
        (Some chunkIndex, Some totalChunks, Some fileName, Some fileId) \<Rightarrow>
          if fileName = [] \<or> fileId = [] then (f, BadRequest ''Missing required parameters'')
          else
            let chunkDir = path_join uploadsDir fileId;
                f1 = (if \<not> existsSync chunkDir f then mkdirSync chunkDir f else f);
                chunkPath = path_join chunkDir (chunk_name chunkIndex)
            in (case writeFileSync chunkPath (q_body rq) f1 of
                  Inl err \<Rightarrow> (f1, ServerError ''Failed to save chunk'' None)
                | Inr f2 \<Rightarrow>
                    (f2, ChunkOk (''Chunk '' @ show_int (chunkIndex + 1) @ '' of ''
                                  @ show_int totalChunks @ '' received'')))
      | _ \<Rightarrow> (f, BadRequest ''Missing required parameters''))"

subsection \<open>ChunkAssembler: POST /upload/complete\<close>

record complete_request =
  c_fileId :: "string option"
  c_fileName :: "string option"
  c_totalChunks :: "int option"
  c_mimeType :: "string option"

text \<open>The loop \<open>for (let i = 0; i < totalChunks; i++)\<close>. A throw leaves the loop with
  the file system and the stream as they are at that point.\<close>

function combine_chunks ::
  "path \<Rightarrow> int \<Rightarrow> nat \<Rightarrow> write_stream \<Rightarrow> filesystem
   \<Rightarrow> fs_error option \<times> write_stream \<times> filesystem" where
  "combine_chunks chunkDir totalChunks i writeStream f =
     (if int i < totalChunks then
        (let chunkPath = path_join chunkDir (chunk_name (int i))
         in case readFileSync chunkPath f of
              Inl err \<Rightarrow> (Some err, writeStream, f)
            | Inr chunkData \<Rightarrow>
                (let s1 = stream_write chunkData writeStream
                 in case unlinkSync chunkPath f of
                      Inl err \<Rightarrow> (Some err, s1, f)
                    | Inr f2 \<Rightarrow> combine_chunks chunkDir totalChunks (Suc i) s1 f2))
      else (None, writeStream, f))"
  by pat_completeness auto
termination
  by (relation "measure (\<lambda>(chunkDir, totalChunks, i, writeStream, f). nat (totalChunks - int i))")
     auto

declare combine_chunks.simps [simp del]

text \<open>The handler: the file system and the response at the moment it answers, and the
  write stream it leaves behind (none when validation fails before the stream is
  created).\<close>

definition upload_complete ::
  "path \<Rightarrow> complete_request \<Rightarrow> filesystem \<Rightarrow> filesystem \<times> response \<times> write_stream option" where
  "upload_complete uploadsDir rq f =
     (case (c_fileId rq, c_fileName rq, c_totalChunks rq, c_mimeType rq) of
        (Some fileId, Some fileName, Some totalChunks, Some mimeType) \<Rightarrow>
          if fileId = [] \<or> fileName = [] \<or> totalChunks = 0 \<or> mimeType = []
          then (f, BadRequest ''Missing required parameters'', None)
          else
            let chunkDir = path_join uploadsDir fileId;
                finalFilePath = path_join uploadsDir (fileId @ ''-'' @ fileName);
                writeStream = createWriteStream finalFilePath
            in (case combine_chunks chunkDir totalChunks 0 writeStream f of
                  (Some err, s1, f1) \<Rightarrow>
                    (f1, ServerError ''Failed to combine chunks'' None, Some s1)
                | (None, s1, f1) \<Rightarrow>
                    (case rmdirSync chunkDir f1 of
                       Inl err \<Rightarrow> (f1, ServerError ''Failed to combine chunks'' None, Some s1)
                     | Inr f2 \<Rightarrow>
                         (f2, CompleteOk ''File upload complete'' finalFilePath fileName mimeType,
                          Some s1)))
      | _ \<Rightarrow> (f, BadRequest ''Missing required parameters'', None))"

text \<open>The file system once the stream the handler left behind has settled; \<open>Inl\<close> when
  its open fails, which ends the process.\<close>

definition upload_complete_settled ::
  "path \<Rightarrow> complete_request \<Rightarrow> filesystem \<Rightarrow> fs_error + filesystem" where
  "upload_complete_settled uploadsDir rq f =
     (case upload_complete uploadsDir rq f of
        (f1, resp, None) \<Rightarrow> Inr f1
      | (f1, resp, Some s) \<Rightarrow> stream_settle s f1)"

subsection \<open>SendPipeline: POST /send\<close>

text \<open>
  A body field that may be one string or an array of strings (\<open>recipients\<close>,
  \<open>attachmentPaths\<close>): \<open>!x\<close> holds of a missing field and of the empty string, and
  of no array. \<open>sender\<close>, \<open>subject\<close> and \<open>body\<close> are strings when present, falsy
  when missing or empty. \<open>rq_files\<close> holds the paths
  multer stored the directly uploaded files at (\<open>req.files\<close>, absent when the request
  is not multipart).
\<close>

datatype field = Absent | Str string | Arr "string list"

definition falsy_field :: "field \<Rightarrow> bool" where
  "falsy_field x = (case x of Absent \<Rightarrow> True | Str s \<Rightarrow> s = [] | Arr xs \<Rightarrow> False)"

record send_request =
  rq_sender :: "string option"
  rq_recipients :: field
  rq_subject :: "string option"
  rq_body :: "string option"
  rq_attachmentPaths :: field
  rq_files :: "path list option"

record mail_attachment =
  ma_content :: string
  ma_filename :: string
  ma_type :: string
  ma_disposition :: string

record mail_message =
  msg_to :: "string list"
  msg_from :: string
  msg_subject :: string
  msg_text :: string
  msg_html :: string
  msg_attachments :: "mail_attachment list option"

text \<open>The state: the record store, the file system, and the messages handed to the
  delivery provider so far (each call of \<open>sgMail.send\<close>, accepted or not). The
  provider is a function from the message to its outcome: \<open>None\<close> when the promise
  resolves, \<open>Some detail\<close> when it rejects with that error message.\<close>

record world =
  w_db :: database
  w_fs :: filesystem
  w_sent :: "mail_message list"

type_synonym provider = "mail_message \<Rightarrow> string option"

definition all_file_paths :: "send_request \<Rightarrow> path list" where
  "all_file_paths rq =
     (case rq_files rq of None \<Rightarrow> [] | Some fl \<Rightarrow> fl) @
     (case rq_attachmentPaths rq of
        Absent \<Rightarrow> []
      | Str s \<Rightarrow> if s = [] then [] else [s]
      | Arr ps \<Rightarrow> ps)"

text \<open>The loop over \<open>allFilePaths\<close>: the path is tracked for cleanup first; a throw
  inside the inner \<open>try\<close> is logged and the loop goes on.\<close>

fun process_files ::
  "nat \<Rightarrow> path list \<Rightarrow> world \<Rightarrow> path list \<Rightarrow> mail_attachment list
   \<Rightarrow> world \<times> path list \<times> mail_attachment list" where
  "process_files emailId [] w uploadedFiles atts = (w, uploadedFiles, atts)"
| "process_files emailId (filePath # rest) w uploadedFiles atts =
     (case readFileSync filePath (w_fs w) of
        Inl err \<Rightarrow> process_files emailId rest w (uploadedFiles @ [filePath]) atts
      | Inr fileContent \<Rightarrow>
          (let fileName = displayName filePath;
               mimeType = getMimeType filePath;
               attachment = \<lparr> at_emailId = emailId, at_filename = fileName,
                              at_content = [], at_contentType = mimeType \<rparr>;
               d = snd (saveAttachment attachment (w_db w));
               descr = \<lparr> ma_content = base64 fileContent, ma_filename = fileName,
                         ma_type = mimeType, ma_disposition = ''attachment'' \<rparr>
           in process_files emailId rest (w\<lparr> w_db := d \<rparr>) (uploadedFiles @ [filePath])
                (atts @ [descr])))"

text \<open>\<open>uploadedFiles.forEach\<close> with its \<open>try\<close> around \<open>unlinkSync\<close>.\<close>

fun unlink_all :: "path list \<Rightarrow> filesystem \<Rightarrow> filesystem" where
  "unlink_all [] f = f"
| "unlink_all (filePath # rest) f =
     unlink_all rest (case unlinkSync filePath f of Inl err \<Rightarrow> f | Inr f' \<Rightarrow> f')"

text \<open>The \<open>try\<close> block up to the call of the provider: validation, the pending
  record, the attachments, the message.\<close>

definition send_prepare ::
  "nat \<Rightarrow> send_request \<Rightarrow> world \<Rightarrow> response + (nat \<times> path list \<times> mail_message \<times> world)" where
  "send_prepare now rq w =
     (let allFilePaths = all_file_paths rq
      in case (rq_sender rq, rq_subject rq, rq_body rq) of
           (Some sender, Some subject, Some body) \<Rightarrow>
             if sender = [] \<or> falsy_field (rq_recipients rq) \<or> subject = [] \<or> body = []
             then Inl (BadRequest ''Missing required fields: sender, recipients, subject, body'')
             else
               let recipientList = (case rq_recipients rq of
                                      Arr rs \<Rightarrow> rs
                                    | Str r \<Rightarrow> [r]
                                    | Absent \<Rightarrow> []);
                   emailData = \<lparr> em_sender = sender, em_recipients = recipientList,
                                 em_subject = subject, em_body = body, em_status = Pending \<rparr>;
                   (emailId, d) = saveEmail now emailData (w_db w);
                   w1 = w\<lparr> w_db := d \<rparr>;
                   (w2, uploadedFiles, atts) =
                     (if allFilePaths \<noteq> [] then process_files emailId allFilePaths w1 [] []
                      else (w1, [], []));
                   msg = \<lparr> msg_to = recipientList, msg_from = sender, msg_subject = subject,
                           msg_text = body, msg_html = body,
                           msg_attachments = (if allFilePaths \<noteq> [] then Some atts else None) \<rparr>
               in Inr (emailId, uploadedFiles, msg, w2)
         | _ \<Rightarrow> Inl (BadRequest ''Missing required fields: sender, recipients, subject, body''))"

text \<open>The rest of the \<open>try\<close> block when the provider accepts, and the \<open>catch\<close> block
  when it rejects.\<close>

definition send_success :: "nat \<Rightarrow> path list \<Rightarrow> world \<Rightarrow> world \<times> response" where
  "send_success emailId uploadedFiles w =
     (let w1 = w\<lparr> w_db := updateEmailStatus emailId Sent (w_db w) \<rparr>;
          w2 = w1\<lparr> w_fs := unlink_all uploadedFiles (w_fs w1) \<rparr>;
          w3 = w2\<lparr> w_db := deleteAttachmentsByEmailId emailId (w_db w2) \<rparr>
      in (w3, SendOk ''Email sent successfully'' emailId))"

definition send_catch :: "nat option \<Rightarrow> path list \<Rightarrow> string \<Rightarrow> world \<Rightarrow> world \<times> response" where
  "send_catch emailId uploadedFiles message w =
     (let w1 = (case emailId of
                  None \<Rightarrow> w
                | Some i \<Rightarrow> if i \<noteq> 0 then w\<lparr> w_db := updateEmailStatus i Failed (w_db w) \<rparr>
                            else w);
          w2 = w1\<lparr> w_fs := unlink_all uploadedFiles (w_fs w1) \<rparr>
      in (w2, ServerError ''Failed to send email'' (Some message)))"

definition send_handler :: "provider \<Rightarrow> nat \<Rightarrow> send_request \<Rightarrow> world \<Rightarrow> world \<times> response" where
  "send_handler sgSend now rq w =
     (case send_prepare now rq w of
        Inl resp \<Rightarrow> (w, resp)
      | Inr (emailId, uploadedFiles, msg, w2) \<Rightarrow>
          (let w3 = w2\<lparr> w_sent := w_sent w2 @ [msg] \<rparr>
           in case sgSend msg of
                None \<Rightarrow> send_success emailId uploadedFiles w3
              | Some message \<Rightarrow> send_catch (Some emailId) uploadedFiles message w3))"

subsection \<open>The routes\<close>

definition get_emails_handler :: "world \<Rightarrow> world \<times> response" where
  "get_emails_handler w = (w, EmailsJson (getEmails (w_db w)))"

definition get_email_handler :: "string \<Rightarrow> world \<Rightarrow> world \<times> response" where
  "get_email_handler idParam w =
     (case parseInt idParam of
        None \<Rightarrow> (w, NotFound ''Email not found'')
      | Some emailId \<Rightarrow>
          if emailId < 0 then (w, NotFound ''Email not found'')
          else (case getEmailById (nat emailId) (w_db w) of
                  None \<Rightarrow> (w, NotFound ''Email not found'')
                | Some email \<Rightarrow> (w, EmailJson email)))"

datatype request =
    GetEmails
  | GetEmail string
  | Send send_request
  | UploadChunk chunk_request
  | UploadComplete complete_request

text \<open>One request, with the provider's behaviour and the clock at that moment. The
  state after an upload completion is the settled one; when the stream's open fails the
  process exits, and the state is what the handler left on disk.\<close>

definition handle :: "path \<Rightarrow> provider \<Rightarrow> nat \<Rightarrow> request \<Rightarrow> world \<Rightarrow> world \<times> response" where
  "handle uploadsDir sgSend now r w =
     (case r of
        GetEmails \<Rightarrow> get_emails_handler w
      | GetEmail idParam \<Rightarrow> get_email_handler idParam w
      | Send rq \<Rightarrow> send_handler sgSend now rq w
      | UploadChunk rq \<Rightarrow>
          (let (f, resp) = upload_chunk uploadsDir rq (w_fs w) in (w\<lparr> w_fs := f \<rparr>, resp))
      | UploadComplete rq \<Rightarrow>
          (let (f, resp, s) = upload_complete uploadsDir rq (w_fs w);
               settled = (case upload_complete_settled uploadsDir rq (w_fs w) of
                            Inl err \<Rightarrow> f
                          | Inr f2 \<Rightarrow> f2)
           in (w\<lparr> w_fs := settled \<rparr>, resp)))"

fun run :: "path \<Rightarrow> (provider \<times> nat \<times> request) list \<Rightarrow> world \<Rightarrow> world" where
  "run uploadsDir [] w = w"
| "run uploadsDir ((sgSend, now, r) # rest) w =
     run uploadsDir rest (fst (handle uploadsDir sgSend now r w))"

section \<open>Auxiliary definitions\<close>

text \<open>The part of \<open>upload_chunk\<close> after validation, with the directory, the chunk path,
  the payload and the reply as arguments.\<close>

definition chunk_write ::
  "path \<Rightarrow> path \<Rightarrow> bytes \<Rightarrow> string \<Rightarrow> filesystem \<Rightarrow> filesystem \<times> response" where
  "chunk_write chunkDir chunkPath payload reply f =
     (let f1 = (if \<not> existsSync chunkDir f then mkdirSync chunkDir f else f)
      in case writeFileSync chunkPath payload f1 of
           Inl err \<Rightarrow> (f1, ServerError ''Failed to save chunk'' None)
         | Inr f2 \<Rightarrow> (f2, ChunkOk reply))"

text \<open>A sequence of chunk requests, handled one after the other.\<close>

fun upload_chunks :: "path \<Rightarrow> chunk_request list \<Rightarrow> filesystem \<Rightarrow> filesystem" where
  "upload_chunks uploadsDir [] f = f"
| "upload_chunks uploadsDir (rq # rest) f =
     upload_chunks uploadsDir rest (fst (upload_chunk uploadsDir rq f))"




text \<open>What one path of \<open>allFilePaths\<close> contributes to the attachments of the message:
  nothing when it cannot be read.\<close>

definition attachment_for :: "filesystem \<Rightarrow> path \<Rightarrow> mail_attachment list" where
  "attachment_for f filePath =
     (case readFileSync filePath f of
        Inl err \<Rightarrow> []
      | Inr fileContent \<Rightarrow>
          [\<lparr> ma_content = base64 fileContent, ma_filename = displayName filePath,
             ma_type = getMimeType filePath, ma_disposition = ''attachment'' \<rparr>])"

section \<open>Sample states and requests\<close>

text \<open>Concrete states and requests on which the theorems below are instantiated:
  a table of two pending records, the uploads directory with nothing in it, an upload
  \<open>u1\<close> of \<open>x.txt\<close> in two chunks of which only the first is stored, and send requests
  with and without attachments.\<close>

definition db2 :: database where
  "db2 = \<lparr> emails =
            [\<lparr> e_id = 1, e_sender = ''a@x.org'', e_recipients = [''b@x.org''],
               e_subject = ''Hi'', e_body = ''Hello'', e_sent_at = 100, e_status = Pending \<rparr>,
             \<lparr> e_id = 2, e_sender = ''c@x.org'', e_recipients = [''d@x.org''],
               e_subject = ''Re'', e_body = ''Bye'', e_sent_at = 200, e_status = Pending \<rparr>],
          attachments = [], emails_seq = 2, attachments_seq = 0 \<rparr>"

definition uploads :: path where
  "uploads = ''/app/temp_uploads''"

definition fs_empty :: filesystem where
  "fs_empty = \<lparr> files = fmempty, dirs = {|uploads|} \<rparr>"

definition chunk_rq :: "string \<Rightarrow> string \<Rightarrow> string \<Rightarrow> bytes \<Rightarrow> chunk_request" where
  "chunk_rq fileId chunkIndex totalChunks payload =
     \<lparr> q_chunkIndex = Some chunkIndex, q_totalChunks = Some totalChunks,
       q_fileName = Some ''x.txt'', q_fileId = Some fileId, q_body = payload \<rparr>"




definition w_plain :: world where
  "w_plain = \<lparr> w_db = db2, w_fs = fs_empty, w_sent = [] \<rparr>"

definition rq_plain :: send_request where
  "rq_plain = \<lparr> rq_sender = Some ''a@x.org'', rq_recipients = Str ''b@x.org'',
                 rq_subject = Some ''Hi'', rq_body = Some ''Hello'',
                 rq_attachmentPaths = Absent, rq_files = None \<rparr>"

definition w_att :: world where
  "w_att = \<lparr> w_db = \<lparr> emails = [], attachments = [], emails_seq = 0, attachments_seq = 0 \<rparr>,
              w_fs = \<lparr> files = fmupd ''/app/temp_uploads/u1-x.txt'' [1, 2, 3] fmempty,
                       dirs = {|''/app/temp_uploads''|} \<rparr>,
              w_sent = [] \<rparr>"

definition rq_att :: "field \<Rightarrow> send_request" where
  "rq_att paths = \<lparr> rq_sender = Some ''a@x.org'', rq_recipients = Str ''b@x.org'',
                     rq_subject = Some ''Hi'', rq_body = Some ''Hello'',
                     rq_attachmentPaths = paths, rq_files = None \<rparr>"

definition rq_no_recipients :: send_request where
  "rq_no_recipients = \<lparr> rq_sender = Some ''a@x.org'', rq_recipients = Arr [],
                          rq_subject = Some ''Hi'', rq_body = Some ''Hello'',
                          rq_attachmentPaths = Absent, rq_files = None \<rparr>"

definition complete_rq_nested :: complete_request where
  "complete_rq_nested = \<lparr> c_fileId = Some ''u1'', c_fileName = Some ''docs/x.txt'',
                           c_totalChunks = Some 2, c_mimeType = Some ''text/plain'' \<rparr>"

section \<open>Properties of the AttachmentResolver\<close>

lemma mimeTypes_keys_lower:
  "map_of mimeTypes e = Some m \<Longrightarrow> toLowerCase e = e"
  by (auto simp: mimeTypes_def toLowerCase_def lower_char_def split: if_splits)

lemma mimeTypes_values_nonempty:
  "map_of mimeTypes e = Some m \<Longrightarrow> m \<noteq> []"
  by (auto simp: mimeTypes_def split: if_splits)

lemma extname_report_pdf: "extname ''docs/report.pdf'' = ''.pdf''"
  by (simp add: extname_def basename_def strip_trailing_slashes_def)

lemma extname_README: "extname ''docs/README'' = []"
  by (simp add: extname_def basename_def strip_trailing_slashes_def)

lemma extname_report_PDF: "extname ''report.PDF'' = ''.PDF''"
  by (simp add: extname_def basename_def strip_trailing_slashes_def)

text \<open>
  C9, as stated, fails: the extension \<open>.PDF\<close> is not a key of the table, yet the
  path \<open>report.PDF\<close> does not resolve to \<open>application/octet-stream\<close>, because
  \<open>getMimeType\<close> lower-cases the extension before it looks it up.
\<close>

theorem getMimeType_unknown_extension_counterexample:
  "extname ''report.PDF'' \<notin> fst ` set mimeTypes \<and>
   getMimeType ''report.PDF'' \<noteq> ''application/octet-stream''"
  by (simp add: extname_report_PDF getMimeType_def mimeTypes_def toLowerCase_def lower_char_def)

text \<open>
  C9, amended: content-type resolution is total, and it compares extensions without
  regard to case. A path whose extension is a key of the table yields that key's MIME
  type; a path whose lower-cased extension is a key yields that key's MIME type; a path
  whose lower-cased extension is no key (an unknown or a missing extension) yields
  \<open>application/octet-stream\<close>. No input makes the function fail: it has no error
  result, and one of the last two cases always applies.
\<close>

theorem getMimeType_resolution:
  "(map_of mimeTypes (extname p) = Some m \<longrightarrow> getMimeType p = m) \<and>
   (map_of mimeTypes (toLowerCase (extname p)) = Some m \<longrightarrow> getMimeType p = m) \<and>
   (map_of mimeTypes (toLowerCase (extname p)) = None \<longrightarrow>
      getMimeType p = ''application/octet-stream'')"
proof (intro conjI impI)
  assume h: "map_of mimeTypes (extname p) = Some m"
  then have "toLowerCase (extname p) = extname p" by (rule mimeTypes_keys_lower)
  with h mimeTypes_values_nonempty [OF h] show "getMimeType p = m"
    by (simp add: getMimeType_def)
next
  assume h: "map_of mimeTypes (toLowerCase (extname p)) = Some m"
  with mimeTypes_values_nonempty [OF h] show "getMimeType p = m"
    by (simp add: getMimeType_def)
next
  assume "map_of mimeTypes (toLowerCase (extname p)) = None"
  then show "getMimeType p = ''application/octet-stream''"
    by (simp add: getMimeType_def)
qed

theorem getMimeType_resolution_witness:
  "map_of mimeTypes (extname ''docs/report.pdf'') = Some ''application/pdf'' \<and>
   getMimeType ''docs/report.pdf'' = ''application/pdf'' \<and>
   map_of mimeTypes (toLowerCase (extname ''report.PDF'')) = Some ''application/pdf'' \<and>
   getMimeType ''report.PDF'' = ''application/pdf'' \<and>
   map_of mimeTypes (toLowerCase (extname ''docs/README'')) = None \<and>
   getMimeType ''docs/README'' = ''application/octet-stream''"
proof -
  have a: "map_of mimeTypes (extname ''docs/report.pdf'') = Some ''application/pdf''"
    by (simp add: extname_report_pdf mimeTypes_def)
  have b: "map_of mimeTypes (toLowerCase (extname ''report.PDF'')) = Some ''application/pdf''"
    by (simp add: extname_report_PDF mimeTypes_def toLowerCase_def lower_char_def)
  have c: "map_of mimeTypes (toLowerCase (extname ''docs/README'')) = None"
    by (simp add: extname_README mimeTypes_def toLowerCase_def)
  note r1 = getMimeType_resolution [THEN conjunct1, THEN mp, OF a]
  note r2 = getMimeType_resolution [THEN conjunct2, THEN conjunct1, THEN mp, OF b]
  note r3 = getMimeType_resolution [THEN conjunct2, THEN conjunct2, THEN mp, OF c]
  from a b c r1 r2 r3 show ?thesis by blast
qed

lemma join_split_js: "join_js [c] (split_js c s) = s"
proof (induction s)
  case Nil
  then show ?case by simp
next
  case (Cons x xs)
  then show ?case
    by (cases "split_js c xs"; cases "tl (split_js c xs)") (auto split: list.splits)
qed

lemma split_js_prefix: "c \<notin> set pre \<Longrightarrow> split_js c (pre @ c # rest) = pre # split_js c rest"
  by (induction pre) auto

lemma basename_path_join:
  assumes "CHR ''/'' \<notin> set name" and "name \<noteq> []"
  shows "basename (path_join d name) = name"
proof -
  from assms have "hd (rev name) \<noteq> CHR ''/''"
    by (metis hd_rev last_in_set)
  with assms(2) have "dropWhile (\<lambda>c. c = CHR ''/'') (rev name @ CHR ''/'' # rev d)
                        = rev name @ CHR ''/'' # rev d"
    by (cases "rev name") auto
  moreover from assms(1) have "takeWhile (\<lambda>c. c \<noteq> CHR ''/'') (rev name @ CHR ''/'' # rev d)
                                 = rev name"
    by (subst takeWhile_append2) auto
  ultimately show ?thesis
    by (simp add: basename_def strip_trailing_slashes_def path_join_def)
qed

lemma displayName_single_prefix:
  assumes "CHR ''-'' \<notin> set fileId" and "CHR ''/'' \<notin> set fileId" and "CHR ''/'' \<notin> set fileName"
  shows "displayName (path_join d (fileId @ ''-'' @ fileName)) = fileName"
proof -
  have "basename (path_join d (fileId @ ''-'' @ fileName)) = fileId @ ''-'' @ fileName"
    using assms(2,3) by (intro basename_path_join) auto
  then show ?thesis
    using split_js_prefix [OF assms(1), of fileName] join_split_js [of "CHR ''-''" fileName]
    by (simp add: displayName_def)
qed

text \<open>
  C7 at a directly uploaded file. Multer stores the upload \<open>report.pdf\<close> of the form
  field \<open>attachments\<close> under a name with three prefix segments (field name, clock,
  random number); the send handler drops the first segment only, so the display filename
  keeps the clock and the random number and is not the true filename \<open>report.pdf\<close>.
  The one-segment prefix of an assembled upload is stripped as intended
  (\<open>displayName_single_prefix\<close>).
\<close>

theorem displayName_multer_upload:
  "displayName (path_join ''/app/temp_uploads''
      (multer_filename ''attachments'' 1700000000000 123456789 ''report.pdf''))
   = ''1700000000000-123456789-report.pdf''"
  by (simp add: displayName_def path_join_def multer_filename_def show_nat.simps digit_char_def
      basename_def strip_trailing_slashes_def)

section \<open>Properties of the record store\<close>

text \<open>
  C10: \<open>updateEmailStatus\<close> changes the status of the rows whose id matches and
  nothing else. Row by row (\<open>k\<close> is a position in the table): the table keeps its
  length; the row keeps its id, sender, recipients, subject, body and sentAt; its
  status is the new one when its id matches and the old one otherwise; a row with
  another id is unchanged as a whole; the attachments table and both sequences are
  unchanged.
\<close>

theorem updateEmailStatus_frame:
  assumes "k < length (emails d)"
  shows "length (emails (updateEmailStatus i st d)) = length (emails d) \<and>
         e_id (emails (updateEmailStatus i st d) ! k) = e_id (emails d ! k) \<and>
         e_sender (emails (updateEmailStatus i st d) ! k) = e_sender (emails d ! k) \<and>
         e_recipients (emails (updateEmailStatus i st d) ! k) = e_recipients (emails d ! k) \<and>
         e_subject (emails (updateEmailStatus i st d) ! k) = e_subject (emails d ! k) \<and>
         e_body (emails (updateEmailStatus i st d) ! k) = e_body (emails d ! k) \<and>
         e_sent_at (emails (updateEmailStatus i st d) ! k) = e_sent_at (emails d ! k) \<and>
         e_status (emails (updateEmailStatus i st d) ! k)
           = (if e_id (emails d ! k) = i then st else e_status (emails d ! k)) \<and>
         (e_id (emails d ! k) \<noteq> i \<longrightarrow>
            emails (updateEmailStatus i st d) ! k = emails d ! k) \<and>
         attachments (updateEmailStatus i st d) = attachments d \<and>
         emails_seq (updateEmailStatus i st d) = emails_seq d \<and>
         attachments_seq (updateEmailStatus i st d) = attachments_seq d"
  using assms by (simp add: updateEmailStatus_def)

theorem updateEmailStatus_frame_witness:
  "1 < length (emails db2) \<and>
   e_id (emails db2 ! 1) \<noteq> 1 \<and>
   emails (updateEmailStatus 1 Sent db2) ! 1 = emails db2 ! 1 \<and>
   e_status (emails (updateEmailStatus 1 Sent db2) ! 0) = Sent \<and>
   e_sender (emails (updateEmailStatus 1 Sent db2) ! 0) = ''a@x.org''"
proof -
  have h0: "0 < length (emails db2)" and h1: "1 < length (emails db2)"
    by (simp_all add: db2_def)
  from updateEmailStatus_frame [OF h0, of 1 Sent] updateEmailStatus_frame [OF h1, of 1 Sent] h1
  show ?thesis by (simp add: db2_def)
qed

section \<open>Properties of the ChunkStore\<close>

lemma upload_chunk_valid:
  assumes "q_fileId rq = Some fileId" "fileId \<noteq> []"
    and "parseInt_param (q_chunkIndex rq) = Some i"
    and "parseInt_param (q_totalChunks rq) = Some n"
    and "q_fileName rq = Some fileName" "fileName \<noteq> []"
  shows "upload_chunk ud rq f =
           chunk_write (path_join ud fileId) (path_join (path_join ud fileId) (chunk_name i))
             (q_body rq) (''Chunk '' @ show_int (i + 1) @ '' of '' @ show_int n @ '' received'') f"
  using assms by (simp add: upload_chunk_def chunk_write_def Let_def split: sum.splits)

lemma upload_chunk_invalid:
  assumes "parseInt_param (q_totalChunks rq) = None \<or> q_fileName rq = None
           \<or> q_fileName rq = Some []"
  shows "upload_chunk ud rq f = (f, BadRequest ''Missing required parameters'')"
  using assms by (auto simp: upload_chunk_def split: option.splits)

lemma chunk_write_twice:
  "chunk_write cd cp b2 m2 (fst (chunk_write cd cp b1 m1 f)) = chunk_write cd cp b2 m2 f"
  by (auto simp: chunk_write_def Let_def writeFileSync_def existsSync_def mkdirSync_def
      split: if_splits)

lemma chunk_write_read:
  "snd (chunk_write cd cp b m f) = ChunkOk m' \<Longrightarrow>
   readFileSync cp (fst (chunk_write cd cp b m f)) = Inr b"
  by (auto simp: chunk_write_def Let_def writeFileSync_def readFileSync_def split: if_splits)

text \<open>
  C8: two chunk requests for the same upload id and the same chunk index, the second
  one passing validation. Handling the first and then the second gives the very state
  and reply that handling the second alone gives: the later payload replaces the earlier
  one and nothing of the earlier write remains (the file system holds one file per
  path, so no second entry can exist). Sending the same request twice gives what sending
  it once gives. When the second write is acknowledged, reading the chunk's path, as
  assembly does, returns the later payload.
\<close>

theorem chunk_rewrite_last_wins:
  assumes "q_fileId rq1 = Some fileId" and "q_fileId rq2 = Some fileId" and "fileId \<noteq> []"
    and "parseInt_param (q_chunkIndex rq1) = Some i"
    and "parseInt_param (q_chunkIndex rq2) = Some i"
    and "parseInt_param (q_totalChunks rq2) = Some n"
    and "q_fileName rq2 = Some fileName" and "fileName \<noteq> []"
  shows "upload_chunk ud rq2 (fst (upload_chunk ud rq1 f)) = upload_chunk ud rq2 f \<and>
         upload_chunk ud rq2 (fst (upload_chunk ud rq2 f)) = upload_chunk ud rq2 f \<and>
         (\<forall>m. snd (upload_chunk ud rq2 (fst (upload_chunk ud rq1 f))) = ChunkOk m \<longrightarrow>
            readFileSync (path_join (path_join ud fileId) (chunk_name i))
              (fst (upload_chunk ud rq2 (fst (upload_chunk ud rq1 f)))) = Inr (q_body rq2))"
proof -
  note v2 = upload_chunk_valid [OF assms(2,3,5,6,7,8)]
  have a: "upload_chunk ud rq2 (fst (upload_chunk ud rq1 f)) = upload_chunk ud rq2 f"
  proof (cases "parseInt_param (q_totalChunks rq1) = None \<or> q_fileName rq1 = None
                \<or> q_fileName rq1 = Some []")
    case True
    then show ?thesis by (simp add: upload_chunk_invalid)
  next
    case False
    then obtain n1 fn1 where "parseInt_param (q_totalChunks rq1) = Some n1"
      "q_fileName rq1 = Some fn1" "fn1 \<noteq> []" by auto
    from upload_chunk_valid [OF assms(1,3,4) this] show ?thesis
      by (simp add: v2 chunk_write_twice)
  qed
  have b: "upload_chunk ud rq2 (fst (upload_chunk ud rq2 f)) = upload_chunk ud rq2 f"
    by (simp add: v2 chunk_write_twice)
  have c: "readFileSync (path_join (path_join ud fileId) (chunk_name i))
              (fst (upload_chunk ud rq2 (fst (upload_chunk ud rq1 f)))) = Inr (q_body rq2)"
    if "snd (upload_chunk ud rq2 (fst (upload_chunk ud rq1 f))) = ChunkOk m" for m
    using that unfolding a v2 by (rule chunk_write_read)
  from a b c show ?thesis by blast
qed

lemma parseInt_param_0: "parseInt_param (Some ''0'') = Some 0"
  by (simp add: parseInt_param_def parseInt_def parse_digits_def is_space_def is_digit_def
      digits_value_def digit_value_def upt_rec)

lemma parseInt_param_1: "parseInt_param (Some ''1'') = Some 1"
  by (simp add: parseInt_param_def parseInt_def parse_digits_def is_space_def is_digit_def
      digits_value_def digit_value_def upt_rec)

lemma parseInt_param_2: "parseInt_param (Some ''2'') = Some 2"
  by (simp add: parseInt_param_def parseInt_def parse_digits_def is_space_def is_digit_def
      digits_value_def digit_value_def upt_rec)

lemma chunk_name_0: "chunk_name 0 = ''chunk-0''"
  by (simp add: chunk_name_def show_int_def show_nat.simps digit_char_def)

lemma chunk_name_1: "chunk_name 1 = ''chunk-1''"
  by (simp add: chunk_name_def show_int_def show_nat.simps digit_char_def)

lemma upload_chunk_ack_sample:
  "snd (upload_chunk uploads (chunk_rq ''u1'' ''0'' ''2'' [3]) fs_empty)
     = ChunkOk ''Chunk 1 of 2 received''"
  by (simp add: upload_chunk_def chunk_rq_def parseInt_param_0 parseInt_param_2 chunk_name_0
      Let_def path_join_def uploads_def fs_empty_def existsSync_def mkdirSync_def
      writeFileSync_def parent_dir_def show_int_def show_nat.simps digit_char_def)

theorem chunk_rewrite_last_wins_witness:
  "snd (upload_chunk uploads (chunk_rq ''u1'' ''0'' ''2'' [3])
          (fst (upload_chunk uploads (chunk_rq ''u1'' ''0'' ''2'' [1, 2]) fs_empty)))
     = ChunkOk ''Chunk 1 of 2 received'' \<and>
   readFileSync ''/app/temp_uploads/u1/chunk-0''
     (fst (upload_chunk uploads (chunk_rq ''u1'' ''0'' ''2'' [3])
        (fst (upload_chunk uploads (chunk_rq ''u1'' ''0'' ''2'' [1, 2]) fs_empty))))
     = Inr [3] \<and>
   upload_chunk uploads (chunk_rq ''u1'' ''0'' ''2'' [3])
     (fst (upload_chunk uploads (chunk_rq ''u1'' ''0'' ''2'' [1, 2]) fs_empty))
     = upload_chunk uploads (chunk_rq ''u1'' ''0'' ''2'' [3]) fs_empty"
proof -
  have p1: "q_fileId (chunk_rq ''u1'' ''0'' ''2'' [1, 2]) = Some ''u1''"
    and p2: "q_fileId (chunk_rq ''u1'' ''0'' ''2'' [3]) = Some ''u1''"
    and p3: "''u1'' \<noteq> []"
    and p4: "parseInt_param (q_chunkIndex (chunk_rq ''u1'' ''0'' ''2'' [1, 2])) = Some 0"
    and p5: "parseInt_param (q_chunkIndex (chunk_rq ''u1'' ''0'' ''2'' [3])) = Some 0"
    and p6: "parseInt_param (q_totalChunks (chunk_rq ''u1'' ''0'' ''2'' [3])) = Some 2"
    and p7: "q_fileName (chunk_rq ''u1'' ''0'' ''2'' [3]) = Some ''x.txt''"
    and p8: "''x.txt'' \<noteq> []"
    by (simp_all add: chunk_rq_def parseInt_param_0 parseInt_param_2)
  note t = chunk_rewrite_last_wins [OF p1 p2 p3 p4 p5 p6 p7 p8, of uploads fs_empty]
  from t have e: "upload_chunk uploads (chunk_rq ''u1'' ''0'' ''2'' [3])
     (fst (upload_chunk uploads (chunk_rq ''u1'' ''0'' ''2'' [1, 2]) fs_empty))
     = upload_chunk uploads (chunk_rq ''u1'' ''0'' ''2'' [3]) fs_empty" by blast
  have ack: "snd (upload_chunk uploads (chunk_rq ''u1'' ''0'' ''2'' [3])
          (fst (upload_chunk uploads (chunk_rq ''u1'' ''0'' ''2'' [1, 2]) fs_empty)))
     = ChunkOk ''Chunk 1 of 2 received''"
    by (simp only: e upload_chunk_ack_sample)
  from t ack have "readFileSync (path_join (path_join uploads ''u1'') (chunk_name 0))
     (fst (upload_chunk uploads (chunk_rq ''u1'' ''0'' ''2'' [3])
        (fst (upload_chunk uploads (chunk_rq ''u1'' ''0'' ''2'' [1, 2]) fs_empty))))
     = Inr (q_body (chunk_rq ''u1'' ''0'' ''2'' [3]))" by blast
  then have r: "readFileSync ''/app/temp_uploads/u1/chunk-0''
     (fst (upload_chunk uploads (chunk_rq ''u1'' ''0'' ''2'' [3])
        (fst (upload_chunk uploads (chunk_rq ''u1'' ''0'' ''2'' [1, 2]) fs_empty))))
     = Inr [3]"
    by (simp add: path_join_def uploads_def chunk_name_0 chunk_rq_def)
  from ack r e show ?thesis by blast
qed

section \<open>Properties of paths and chunk names\<close>















lemma chunk_path_not_dir: "path_join cd name \<noteq> cd"
  by (simp add: path_join_def)

section \<open>Properties of the ChunkAssembler\<close>
























lemma dir_entries_empty_iff:
  "dir_entries p f = {||} \<longleftrightarrow>
     (\<forall>q. q |\<in>| fmdom (files f) |\<union>| dirs f \<longrightarrow> parent_dir q \<noteq> p)"
  by (auto simp: dir_entries_def fset_eq_iff)

lemma upload_chunks_sample:
  "upload_chunks uploads [chunk_rq ''u1'' ''0'' ''2'' [1, 2], chunk_rq ''u1'' ''1'' ''2'' [3]]
     fs_empty =
   \<lparr> files = fmupd ''/app/temp_uploads/u1/chunk-1'' [3]
               (fmupd ''/app/temp_uploads/u1/chunk-0'' [1, 2] fmempty),
     dirs = {|''/app/temp_uploads/u1'', ''/app/temp_uploads''|} \<rparr>"
  by (simp add: upload_chunk_def chunk_rq_def parseInt_param_0 parseInt_param_1 parseInt_param_2
      chunk_name_0 chunk_name_1 Let_def path_join_def uploads_def fs_empty_def existsSync_def
      mkdirSync_def writeFileSync_def parent_dir_def)

text \<open>
  Outside the hypothesis on the final path: a file name with a directory part that does
  not exist. The handler answers 200 and has deleted the chunks, but the stream cannot
  open the path, so no artifact is written.
\<close>

lemma assembly_unopenable_sample:
  "fst (snd (upload_complete uploads complete_rq_nested
     (upload_chunks uploads [chunk_rq ''u1'' ''0'' ''2'' [1, 2], chunk_rq ''u1'' ''1'' ''2'' [3]]
        fs_empty)))
     = CompleteOk ''File upload complete'' ''/app/temp_uploads/u1-docs/x.txt'' ''docs/x.txt''
         ''text/plain'' \<and>
   upload_complete_settled uploads complete_rq_nested
     (upload_chunks uploads [chunk_rq ''u1'' ''0'' ''2'' [1, 2], chunk_rq ''u1'' ''1'' ''2'' [3]]
        fs_empty) = Inl ENOENT"
  unfolding upload_chunks_sample
  by (simp add: upload_complete_settled_def upload_complete_def
      complete_rq_nested_def uploads_def Let_def path_join_def createWriteStream_def
      combine_chunks.simps chunk_name_0 chunk_name_1 readFileSync_def stream_write_def
      unlinkSync_def fmdrop_fmupd fmdrop_fmupd_same rmdirSync_def dir_entries_empty_iff
      stream_settle_def writeFileSync_def parent_dir_def)

section \<open>Properties of the SendPipeline\<close>

lemma process_files_frame:
  "process_files emailId paths w up atts = (w', up', atts') \<Longrightarrow>
     emails (w_db w') = emails (w_db w) \<and> emails_seq (w_db w') = emails_seq (w_db w) \<and>
     w_fs w' = w_fs w \<and> w_sent w' = w_sent w \<and>
     up' = up @ paths \<and>
     atts' = atts @ concat (map (attachment_for (w_fs w)) paths)"
proof (induction paths arbitrary: w up atts)
  case Nil
  then show ?case by simp
next
  case (Cons p ps)
  show ?case
  proof (cases "readFileSync p (w_fs w)")
    case (Inl err)
    with Cons.prems have "process_files emailId ps w (up @ [p]) atts = (w', up', atts')"
      by simp
    from Cons.IH [OF this] Inl show ?thesis by (simp add: attachment_for_def)
  next
    case (Inr b)
    let ?w1 = "w\<lparr> w_db := snd (saveAttachment
                  \<lparr> at_emailId = emailId, at_filename = displayName p,
                    at_content = [], at_contentType = getMimeType p \<rparr> (w_db w)) \<rparr>"
    from Cons.prems Inr have "process_files emailId ps ?w1 (up @ [p])
        (atts @ [\<lparr> ma_content = base64 b, ma_filename = displayName p,
                  ma_type = getMimeType p, ma_disposition = ''attachment'' \<rparr>]) = (w', up', atts')"
      by (simp add: Let_def)
    from Cons.IH [OF this] Inr show ?thesis
      by (simp add: attachment_for_def saveAttachment_def Let_def)
  qed
qed

lemma unlink_all_files:
  "unlink_all ps f = f\<lparr> files := fmdrop_set (set ps) (files f) \<rparr>"
proof (induction ps arbitrary: f)
  case Nil
  then show ?case by simp
next
  case (Cons p ps)
  show ?case
  proof (cases "p |\<in>| fmdom (files f)")
    case True
    then show ?thesis by (simp add: Cons.IH unlinkSync_def)
  next
    case False
    then have "fmdrop p (fmdrop_set (set ps) (files f)) = fmdrop_set (set ps) (files f)"
      by (intro fmdrop_idle) (auto simp: fmlookup_dom_iff)
    with False show ?thesis by (simp add: Cons.IH unlinkSync_def)
  qed
qed

lemma send_prepare_valid:
  assumes "rq_sender rq = Some sender" "sender \<noteq> []"
    and "rq_subject rq = Some subject" "subject \<noteq> []"
    and "rq_body rq = Some body" "body \<noteq> []"
    and "\<not> falsy_field (rq_recipients rq)"
  shows "\<exists>w1 row msg.
           send_prepare now rq w
             = Inr (emails_seq (w_db w) + 1, all_file_paths rq, msg, w1) \<and>
           e_id row = emails_seq (w_db w) + 1 \<and> e_status row = Pending \<and>
           emails (w_db w1) = emails (w_db w) @ [row] \<and>
           emails_seq (w_db w1) = emails_seq (w_db w) + 1 \<and>
           w_fs w1 = w_fs w \<and> w_sent w1 = w_sent w \<and>
           msg_attachments msg =
             (if all_file_paths rq \<noteq> []
              then Some (concat (map (attachment_for (w_fs w)) (all_file_paths rq))) else None)"
proof (cases "all_file_paths rq = []")
  case True
  with assms show ?thesis
    by (simp add: send_prepare_def Let_def saveEmail_def)
next
  case False
  let ?rl = "case rq_recipients rq of Arr rs \<Rightarrow> rs | Str r \<Rightarrow> [r] | Absent \<Rightarrow> []"
  let ?row = "\<lparr> e_id = emails_seq (w_db w) + 1, e_sender = sender, e_recipients = ?rl,
                e_subject = subject, e_body = body, e_sent_at = now, e_status = Pending \<rparr>"
  let ?w1 = "w\<lparr> w_db := (w_db w)\<lparr> emails := emails (w_db w) @ [?row],
                                  emails_seq := emails_seq (w_db w) + 1 \<rparr> \<rparr>"
  obtain w2 up atts where
    pf: "process_files (emails_seq (w_db w) + 1) (all_file_paths rq) ?w1 [] [] = (w2, up, atts)"
    by (metis prod_cases3)
  note fr = process_files_frame [OF pf]
  from assms False pf have "send_prepare now rq w =
      Inr (emails_seq (w_db w) + 1, up,
           \<lparr> msg_to = ?rl, msg_from = sender, msg_subject = subject, msg_text = body,
             msg_html = body, msg_attachments = Some atts \<rparr>, w2)"
    by (simp add: send_prepare_def Let_def saveEmail_def)
  with fr False show ?thesis by simp
qed

lemma send_prepare_Inr:
  assumes "send_prepare now rq w = Inr x"
  shows "\<exists>sender subject body.
           rq_sender rq = Some sender \<and> sender \<noteq> [] \<and>
           rq_subject rq = Some subject \<and> subject \<noteq> [] \<and>
           rq_body rq = Some body \<and> body \<noteq> [] \<and> \<not> falsy_field (rq_recipients rq)"
  using assms
  by (auto simp: send_prepare_def Let_def split: option.splits if_splits)

lemma send_handler_valid:
  assumes "send_prepare now rq w = Inr (emailId, uploadedFiles, msg, w1)"
  shows "send_handler sgSend now rq w =
           (case sgSend msg of
              None \<Rightarrow> send_success emailId uploadedFiles (w1\<lparr> w_sent := w_sent w1 @ [msg] \<rparr>)
            | Some message \<Rightarrow>
                send_catch (Some emailId) uploadedFiles message
                  (w1\<lparr> w_sent := w_sent w1 @ [msg] \<rparr>))"
  using assms by (simp add: send_handler_def Let_def)

lemma send_success_sent: "w_sent (fst (send_success i up w)) = w_sent w"
  by (simp add: send_success_def Let_def)

lemma send_catch_sent: "w_sent (fst (send_catch i up m w)) = w_sent w"
  by (simp add: send_catch_def Let_def split: option.splits)

lemma send_success_emails:
  "emails (w_db (fst (send_success i up w))) = emails (updateEmailStatus i Sent (w_db w))"
  by (simp add: send_success_def Let_def deleteAttachmentsByEmailId_def)

lemma send_success_seq:
  "emails_seq (w_db (fst (send_success i up w))) = emails_seq (w_db w)"
  by (simp add: send_success_def Let_def deleteAttachmentsByEmailId_def updateEmailStatus_def)

lemma send_catch_emails:
  "i \<noteq> 0 \<Longrightarrow>
   emails (w_db (fst (send_catch (Some i) up m w))) = emails (updateEmailStatus i Failed (w_db w))"
  by (simp add: send_catch_def Let_def)

lemma send_catch_seq:
  "emails_seq (w_db (fst (send_catch i up m w))) = emails_seq (w_db w)"
  by (simp add: send_catch_def Let_def updateEmailStatus_def split: option.splits)

lemma update_fresh_row:
  assumes "db_ok d" and "emails d' = emails d @ [row]" and "e_id row = emails_seq d + 1"
  shows "emails (updateEmailStatus (emails_seq d + 1) st d')
           = emails d @ [row\<lparr> e_status := st \<rparr>]"
proof -
  from assms(1) have "map (\<lambda>r. if e_id r = emails_seq d + 1 then r\<lparr> e_status := st \<rparr> else r)
                         (emails d) = emails d"
    by (intro map_idI) (auto simp: db_ok_def list_all_iff)
  with assms(2,3) show ?thesis by (simp add: updateEmailStatus_def)
qed

lemma send_handler_emails:
  assumes ok: "db_ok (w_db w)"
    and prep: "send_prepare now rq w = Inr (emailId, uploadedFiles, msg, w1)"
  shows "\<exists>row. e_id row = emailId \<and> e_status row = Pending \<and>
               emailId = emails_seq (w_db w) + 1 \<and>
               emails (w_db w1) = emails (w_db w) @ [row] \<and>
               emails_seq (w_db (fst (send_handler sgSend now rq w))) = emails_seq (w_db w) + 1 \<and>
               emails (w_db (fst (send_handler sgSend now rq w))) =
                 emails (w_db w) @
                   [row\<lparr> e_status := (case sgSend msg of None \<Rightarrow> Sent | Some detail \<Rightarrow> Failed) \<rparr>]"
proof -
  from send_prepare_Inr [OF prep] obtain sender subject body where
    v: "rq_sender rq = Some sender" "sender \<noteq> []" "rq_subject rq = Some subject"
       "subject \<noteq> []" "rq_body rq = Some body" "body \<noteq> []"
       "\<not> falsy_field (rq_recipients rq)" by blast
  from send_prepare_valid [OF v, of now w] prep obtain row where
    r: "emailId = emails_seq (w_db w) + 1" "e_id row = emails_seq (w_db w) + 1"
       "e_status row = Pending" "emails (w_db w1) = emails (w_db w) @ [row]"
       "emails_seq (w_db w1) = emails_seq (w_db w) + 1"
    by auto
  let ?w3 = "w1\<lparr> w_sent := w_sent w1 @ [msg] \<rparr>"
  have e3: "emails (w_db ?w3) = emails (w_db w) @ [row]" using r(4) by simp
  note u = update_fresh_row [OF ok e3 r(2)]
  have "emails (w_db (fst (send_handler sgSend now rq w))) =
          emails (w_db w) @
            [row\<lparr> e_status := (case sgSend msg of None \<Rightarrow> Sent | Some detail \<Rightarrow> Failed) \<rparr>]"
    using u [of Sent] u [of Failed]
    by (simp add: send_handler_valid [OF prep] r(1) send_success_emails send_catch_emails
        split: option.splits)
  moreover have "emails_seq (w_db (fst (send_handler sgSend now rq w))) = emails_seq (w_db w) + 1"
    using r(5)
    by (simp add: send_handler_valid [OF prep] send_success_seq send_catch_seq
        split: option.splits)
  ultimately show ?thesis using r by blast
qed

lemma send_handler_invalid:
  "send_prepare now rq w = Inl resp \<Longrightarrow> send_handler sgSend now rq w = (w, resp)"
  by (simp add: send_handler_def)

lemma handle_keeps_rows:
  assumes ok: "db_ok (w_db w)"
  shows "db_ok (w_db (fst (handle ud sgSend now r w))) \<and>
         take (length (emails (w_db w))) (emails (w_db (fst (handle ud sgSend now r w))))
           = emails (w_db w)"
proof (cases r)
  case GetEmails
  with ok show ?thesis by (simp add: handle_def get_emails_handler_def)
next
  case (GetEmail idParam)
  with ok show ?thesis
    by (simp add: handle_def get_email_handler_def split: option.splits)
next
  case (Send rq)
  show ?thesis
  proof (cases "send_prepare now rq w")
    case (Inl resp)
    with ok Send show ?thesis by (simp add: handle_def send_handler_invalid)
  next
    case (Inr x)
    obtain emailId uploadedFiles msg w1 where x: "x = (emailId, uploadedFiles, msg, w1)"
      by (cases x) auto
    from send_handler_emails [OF ok Inr [unfolded x], of sgSend] obtain row where
      r: "e_id row = emails_seq (w_db w) + 1"
         "emails_seq (w_db (fst (send_handler sgSend now rq w))) = emails_seq (w_db w) + 1"
         "emails (w_db (fst (send_handler sgSend now rq w))) =
            emails (w_db w) @
              [row\<lparr> e_status := (case sgSend msg of None \<Rightarrow> Sent | Some detail \<Rightarrow> Failed) \<rparr>]"
      by auto
    from ok r have "db_ok (w_db (fst (send_handler sgSend now rq w)))"
      by (auto simp: db_ok_def list_all_iff)
    with r(3) Send show ?thesis by (simp add: handle_def)
  qed
next
  case (UploadChunk rq)
  with ok show ?thesis by (simp add: handle_def split: prod.splits)
next
  case (UploadComplete rq)
  with ok show ?thesis by (simp add: handle_def split: prod.splits sum.splits)
qed

lemma run_keeps_rows:
  "db_ok (w_db w) \<Longrightarrow>
     db_ok (w_db (run ud ops w)) \<and>
     take (length (emails (w_db w))) (emails (w_db (run ud ops w))) = emails (w_db w)"
proof (induction ops arbitrary: w)
  case Nil
  then show ?case by simp
next
  case (Cons op ops)
  obtain sgSend now r where op: "op = (sgSend, now, r)" by (cases op) auto
  let ?w1 = "fst (handle ud sgSend now r w)"
  note h = handle_keeps_rows [OF Cons.prems, of ud sgSend now r]
  from h have ok1: "db_ok (w_db ?w1)" by blast
  note IH = Cons.IH [OF ok1]
  from h have t1: "take (length (emails (w_db w))) (emails (w_db ?w1)) = emails (w_db w)"
    by blast
  from arg_cong [OF t1, of length]
  have le: "length (emails (w_db w)) \<le> length (emails (w_db ?w1))" by simp
  from IH have t2: "take (length (emails (w_db ?w1))) (emails (w_db (run ud ops ?w1)))
                      = emails (w_db ?w1)" by blast
  have "take (length (emails (w_db w))) (emails (w_db (run ud ops ?w1)))
          = take (length (emails (w_db w)))
              (take (length (emails (w_db ?w1))) (emails (w_db (run ud ops ?w1))))"
    using le by (simp add: min_absorb1)
  also have "\<dots> = emails (w_db w)" by (simp only: t2 t1)
  finally have "take (length (emails (w_db w))) (emails (w_db (run ud ops ?w1)))
                    = emails (w_db w)" .
  with IH show ?case by (simp add: op)
qed

text \<open>
  C2. Let the email table satisfy what AUTOINCREMENT guarantees (\<open>db_ok\<close>). Then:
  \<^item> whatever requests are handled next (\<open>run\<close> over any list of requests, with any
    behaviour of the provider), the table still satisfies it and every row that was in
    the table is still there, unchanged: in particular a record that has reached
    \<open>sent\<close> or \<open>failed\<close> keeps that status for ever;
  \<^item> a send request that fails validation changes no record; a send request that passes
    it creates one record, which is \<open>pending\<close> when the provider is called and which
    the handler moves once, to \<open>sent\<close> when the provider accepts and to \<open>failed\<close>
    when it rejects: the table the handler leaves is the old table followed by that one
    record in its terminal status.
  Database statements and the writing of the response are taken not to throw.
\<close>

theorem send_status_transitions:
  assumes "db_ok (w_db w)"
  shows "db_ok (w_db (run ud ops w)) \<and>
         take (length (emails (w_db w))) (emails (w_db (run ud ops w))) = emails (w_db w) \<and>
         (case send_prepare now rq w of
            Inl resp \<Rightarrow> emails (w_db (fst (send_handler sgSend now rq w))) = emails (w_db w)
          | Inr (emailId, uploadedFiles, msg, w1) \<Rightarrow>
              (\<exists>row. e_id row = emailId \<and> e_status row = Pending \<and>
                 emails (w_db w1) = emails (w_db w) @ [row] \<and>
                 emails (w_db (fst (send_handler sgSend now rq w))) =
                   emails (w_db w) @
                     [row\<lparr> e_status := (case sgSend msg of None \<Rightarrow> Sent
                                          | Some detail \<Rightarrow> Failed) \<rparr>]))"
proof -
  have "case send_prepare now rq w of
            Inl resp \<Rightarrow> emails (w_db (fst (send_handler sgSend now rq w))) = emails (w_db w)
          | Inr (emailId, uploadedFiles, msg, w1) \<Rightarrow>
              (\<exists>row. e_id row = emailId \<and> e_status row = Pending \<and>
                 emails (w_db w1) = emails (w_db w) @ [row] \<and>
                 emails (w_db (fst (send_handler sgSend now rq w))) =
                   emails (w_db w) @
                     [row\<lparr> e_status := (case sgSend msg of None \<Rightarrow> Sent
                                          | Some detail \<Rightarrow> Failed) \<rparr>])"
  proof (cases "send_prepare now rq w")
    case (Inl resp)
    then show ?thesis by (simp add: send_handler_invalid)
  next
    case (Inr x)
    obtain emailId uploadedFiles msg w1 where x: "x = (emailId, uploadedFiles, msg, w1)"
      by (cases x) auto
    from send_handler_emails [OF assms Inr [unfolded x], of sgSend]
    show ?thesis unfolding Inr x by auto
  qed
  with run_keeps_rows [OF assms, of ud ops] show ?thesis by blast
qed

lemma sample_names:
  "displayName ''/app/temp_uploads/u1-x.txt'' = ''x.txt''"
  "getMimeType ''/app/temp_uploads/u1-x.txt'' = ''text/plain''"
  "base64 [1, 2, 3] = ''AQID''"
  by (simp_all add: displayName_def basename_def strip_trailing_slashes_def getMimeType_def
      extname_def toLowerCase_def lower_char_def mimeTypes_def b64_char_def)

theorem send_status_transitions_witness:
  "db_ok (w_db w_plain) \<and>
   emails (w_db (fst (send_handler (\<lambda>m. None) 300 rq_plain w_plain))) =
     emails db2 @
       [\<lparr> e_id = 3, e_sender = ''a@x.org'', e_recipients = [''b@x.org''], e_subject = ''Hi'',
          e_body = ''Hello'', e_sent_at = 300, e_status = Sent \<rparr>] \<and>
   take 2 (emails (w_db (run uploads [(\<lambda>m. Some ''rejected'', 400, Send rq_plain)] w_plain)))
     = emails db2"
proof -
  have ok: "db_ok (w_db w_plain)" by (simp add: w_plain_def db2_def db_ok_def)
  have prep: "send_prepare 300 rq_plain w_plain =
     Inr (3, [],
          \<lparr> msg_to = [''b@x.org''], msg_from = ''a@x.org'', msg_subject = ''Hi'',
            msg_text = ''Hello'', msg_html = ''Hello'', msg_attachments = None \<rparr>,
          w_plain\<lparr> w_db := db2\<lparr> emails := emails db2 @
             [\<lparr> e_id = 3, e_sender = ''a@x.org'', e_recipients = [''b@x.org''],
                e_subject = ''Hi'', e_body = ''Hello'', e_sent_at = 300, e_status = Pending \<rparr>],
             emails_seq := 3 \<rparr> \<rparr>)"
    by (simp add: send_prepare_def rq_plain_def w_plain_def all_file_paths_def falsy_field_def
        saveEmail_def Let_def db2_def)
  note t = send_status_transitions [OF ok, where ud = uploads
      and ops = "[(\<lambda>m. Some ''rejected'', 400, Send rq_plain)]"
      and now = 300 and rq = rq_plain and sgSend = "\<lambda>m. None"]
  from t have a: "take (length (emails (w_db w_plain)))
        (emails (w_db (run uploads [(\<lambda>m. Some ''rejected'', 400, Send rq_plain)] w_plain)))
        = emails (w_db w_plain)" by blast
  from t obtain row where
    "emails db2 @ [\<lparr> e_id = 3, e_sender = ''a@x.org'', e_recipients = [''b@x.org''],
                e_subject = ''Hi'', e_body = ''Hello'', e_sent_at = 300, e_status = Pending \<rparr>]
       = emails (w_db w_plain) @ [row]"
    "emails (w_db (fst (send_handler (\<lambda>m. None) 300 rq_plain w_plain))) =
       emails (w_db w_plain) @ [row\<lparr> e_status := Sent \<rparr>]"
    unfolding prep by auto
  then have b: "emails (w_db (fst (send_handler (\<lambda>m. None) 300 rq_plain w_plain))) =
     emails db2 @
       [\<lparr> e_id = 3, e_sender = ''a@x.org'', e_recipients = [''b@x.org''], e_subject = ''Hi'',
          e_body = ''Hello'', e_sent_at = 300, e_status = Sent \<rparr>]"
    by (auto simp: w_plain_def)
  have len: "length (emails db2) = 2" by (simp add: db2_def)
  have eq: "emails (w_db w_plain) = emails db2" by (simp add: w_plain_def)
  from a have c: "take 2 (emails (w_db (run uploads
        [(\<lambda>m. Some ''rejected'', 400, Send rq_plain)] w_plain))) = emails db2"
    unfolding eq len .
  from ok b c show ?thesis by blast
qed

text \<open>
  C6: a send request that passes validation and names a path \<open>p\<close> that cannot be
  read. The handler still calls the provider, once, with a message whose attachments
  are those of the readable paths, in order; \<open>p\<close> contributes none. The response
  depends on the provider's answer only: success when it accepts, its error when it
  rejects; nothing in it reports the unreadable file.
\<close>

theorem unreadable_attachment_is_skipped:
  assumes "rq_sender rq = Some sender" and "sender \<noteq> []"
    and "rq_subject rq = Some subject" and "subject \<noteq> []"
    and "rq_body rq = Some body" and "body \<noteq> []"
    and "\<not> falsy_field (rq_recipients rq)"
    and "p \<in> set (all_file_paths rq)"
    and "readFileSync p (w_fs w) = Inl err"
  shows "\<exists>msg. w_sent (fst (send_handler sgSend now rq w)) = w_sent w @ [msg] \<and>
           msg_attachments msg
             = Some (concat (map (attachment_for (w_fs w)) (all_file_paths rq))) \<and>
           attachment_for (w_fs w) p = [] \<and>
           snd (send_handler sgSend now rq w) =
             (case sgSend msg of
                None \<Rightarrow> SendOk ''Email sent successfully'' (emails_seq (w_db w) + 1)
              | Some detail \<Rightarrow> ServerError ''Failed to send email'' (Some detail))"
proof -
  from assms(8) have ne: "all_file_paths rq \<noteq> []" by auto
  from send_prepare_valid [OF assms(1-7), of now w] ne obtain w1 msg where
    prep: "send_prepare now rq w = Inr (emails_seq (w_db w) + 1, all_file_paths rq, msg, w1)"
    and s: "w_sent w1 = w_sent w"
    and m: "msg_attachments msg
              = Some (concat (map (attachment_for (w_fs w)) (all_file_paths rq)))"
    by auto
  have "w_sent (fst (send_handler sgSend now rq w)) = w_sent w @ [msg]"
    by (simp add: send_handler_valid [OF prep] send_success_sent send_catch_sent s
        split: option.splits)
  moreover have "attachment_for (w_fs w) p = []"
    using assms(9) by (simp add: attachment_for_def)
  moreover have "snd (send_handler sgSend now rq w) =
             (case sgSend msg of
                None \<Rightarrow> SendOk ''Email sent successfully'' (emails_seq (w_db w) + 1)
              | Some detail \<Rightarrow> ServerError ''Failed to send email'' (Some detail))"
    by (simp add: send_handler_valid [OF prep] send_success_def send_catch_def Let_def
        split: option.splits)
  ultimately show ?thesis using m by blast
qed

theorem unreadable_attachment_is_skipped_witness:
  "readFileSync ''/app/temp_uploads/gone-y.pdf'' (w_fs w_att) = Inl ENOENT \<and>
   (\<exists>msg. w_sent (fst (send_handler (\<lambda>m. None) 500
               (rq_att (Arr [''/app/temp_uploads/u1-x.txt'', ''/app/temp_uploads/gone-y.pdf'']))
               w_att)) = [msg] \<and>
          msg_attachments msg =
            Some [\<lparr> ma_content = ''AQID'', ma_filename = ''x.txt'', ma_type = ''text/plain'',
                    ma_disposition = ''attachment'' \<rparr>] \<and>
          snd (send_handler (\<lambda>m. None) 500
               (rq_att (Arr [''/app/temp_uploads/u1-x.txt'', ''/app/temp_uploads/gone-y.pdf'']))
               w_att) = SendOk ''Email sent successfully'' 1)"
proof -
  let ?rq = "rq_att (Arr [''/app/temp_uploads/u1-x.txt'', ''/app/temp_uploads/gone-y.pdf''])"
  have v: "rq_sender ?rq = Some ''a@x.org''" "''a@x.org'' \<noteq> []"
    "rq_subject ?rq = Some ''Hi''" "''Hi'' \<noteq> []"
    "rq_body ?rq = Some ''Hello''" "''Hello'' \<noteq> []"
    "\<not> falsy_field (rq_recipients ?rq)"
    by (simp_all add: rq_att_def falsy_field_def)
  have paths: "all_file_paths ?rq
                 = [''/app/temp_uploads/u1-x.txt'', ''/app/temp_uploads/gone-y.pdf'']"
    by (simp add: all_file_paths_def rq_att_def)
  have p: "''/app/temp_uploads/gone-y.pdf'' \<in> set (all_file_paths ?rq)"
    by (simp add: paths)
  have gone: "readFileSync ''/app/temp_uploads/gone-y.pdf'' (w_fs w_att) = Inl ENOENT"
    by (simp add: readFileSync_def w_att_def)
  have good: "readFileSync ''/app/temp_uploads/u1-x.txt'' (w_fs w_att) = Inr [1, 2, 3]"
    by (simp add: readFileSync_def w_att_def)
  have atts: "concat (map (attachment_for (w_fs w_att)) (all_file_paths ?rq)) =
      [\<lparr> ma_content = ''AQID'', ma_filename = ''x.txt'', ma_type = ''text/plain'',
         ma_disposition = ''attachment'' \<rparr>]"
    by (simp add: paths attachment_for_def gone good sample_names b64_char_def)
  have s0: "w_sent w_att = []" "emails_seq (w_db w_att) + 1 = 1"
    by (simp_all add: w_att_def)
  from unreadable_attachment_is_skipped [OF v p gone, of "\<lambda>m. None" 500]
  obtain msg where
    "w_sent (fst (send_handler (\<lambda>m. None) 500 ?rq w_att)) = w_sent w_att @ [msg]"
    "msg_attachments msg = Some (concat (map (attachment_for (w_fs w_att)) (all_file_paths ?rq)))"
    "snd (send_handler (\<lambda>m. None) 500 ?rq w_att)
       = SendOk ''Email sent successfully'' (emails_seq (w_db w_att) + 1)"
    by auto
  then have "w_sent (fst (send_handler (\<lambda>m. None) 500 ?rq w_att)) = [msg] \<and>
          msg_attachments msg =
            Some [\<lparr> ma_content = ''AQID'', ma_filename = ''x.txt'', ma_type = ''text/plain'',
                    ma_disposition = ''attachment'' \<rparr>] \<and>
          snd (send_handler (\<lambda>m. None) 500 ?rq w_att) = SendOk ''Email sent successfully'' 1"
    by (simp only: atts s0 append_Nil simp_thms)
  with gone show ?thesis by blast
qed

lemma send_validation_rejects:
  assumes "rq_sender rq = None \<or> rq_sender rq = Some [] \<or> falsy_field (rq_recipients rq) \<or>
           rq_subject rq = None \<or> rq_subject rq = Some [] \<or>
           rq_body rq = None \<or> rq_body rq = Some []"
  shows "send_handler sgSend now rq w =
           (w, BadRequest ''Missing required fields: sender, recipients, subject, body'')"
  using assms
  by (auto simp: send_handler_def send_prepare_def Let_def split: option.splits)

lemma send_removes_files:
  assumes "send_prepare now rq w = Inr (emailId, uploadedFiles, msg, w1)"
    and "p \<in> set (all_file_paths rq)"
  shows "fmlookup (files (w_fs (fst (send_handler sgSend now rq w)))) p = None"
proof -
  from send_prepare_Inr [OF assms(1)] obtain sender subject body where
    v: "rq_sender rq = Some sender" "sender \<noteq> []" "rq_subject rq = Some subject"
       "subject \<noteq> []" "rq_body rq = Some body" "body \<noteq> []"
       "\<not> falsy_field (rq_recipients rq)" by blast
  from send_prepare_valid [OF v, of now w] assms(1)
  have up: "uploadedFiles = all_file_paths rq" by auto
  show ?thesis
    using assms(2)
    by (simp add: send_handler_valid [OF assms(1)] send_success_def send_catch_def Let_def
        unlink_all_files up split: option.splits)
qed

lemma send_success_removes_attachment_records:
  assumes "snd (send_handler sgSend now rq w) = SendOk m i"
  shows "getAttachmentsByEmailId i (w_db (fst (send_handler sgSend now rq w))) = []"
proof (cases "send_prepare now rq w")
  case (Inl resp)
  then have "resp = BadRequest ''Missing required fields: sender, recipients, subject, body''"
    by (auto simp: send_prepare_def Let_def split: option.splits if_splits prod.splits)
  with assms Inl show ?thesis by (simp add: send_handler_def)
next
  case (Inr x)
  obtain emailId uploadedFiles msg w1 where x: "x = (emailId, uploadedFiles, msg, w1)"
    by (cases x) auto
  note h = send_handler_valid [OF Inr [unfolded x], of sgSend]
  show ?thesis
  proof (cases "sgSend msg")
    case None
    with assms h have "i = emailId" by (simp add: send_success_def Let_def)
    with None h show ?thesis
      by (simp add: send_success_def Let_def getAttachmentsByEmailId_def
          deleteAttachmentsByEmailId_def)
  next
    case (Some d)
    with assms h show ?thesis by (simp add: send_catch_def Let_def)
  qed
qed

lemma rejected_send_sample:
  "send_handler (\<lambda>m. Some ''Unauthorized'') 500
     (rq_att (Str ''/app/temp_uploads/u1-x.txt'')) w_att =
   (\<lparr> w_db = \<lparr> emails = [\<lparr> e_id = 1, e_sender = ''a@x.org'', e_recipients = [''b@x.org''],
                            e_subject = ''Hi'', e_body = ''Hello'', e_sent_at = 500,
                            e_status = Failed \<rparr>],
               attachments = [\<lparr> a_id = 1, a_email_id = 1, a_filename = ''x.txt'',
                                 a_content = [], a_content_type = ''text/plain'' \<rparr>],
               emails_seq = 1, attachments_seq = 1 \<rparr>,
      w_fs = \<lparr> files = fmempty, dirs = {|''/app/temp_uploads''|} \<rparr>,
      w_sent = [\<lparr> msg_to = [''b@x.org''], msg_from = ''a@x.org'', msg_subject = ''Hi'',
                  msg_text = ''Hello'', msg_html = ''Hello'',
                  msg_attachments = Some [\<lparr> ma_content = ''AQID'', ma_filename = ''x.txt'',
                     ma_type = ''text/plain'', ma_disposition = ''attachment'' \<rparr>] \<rparr>] \<rparr>,
    ServerError ''Failed to send email'' (Some ''Unauthorized''))"
  by (simp add: send_handler_def send_prepare_def rq_att_def w_att_def all_file_paths_def
      falsy_field_def saveEmail_def Let_def readFileSync_def sample_names saveAttachment_def
      send_catch_def updateEmailStatus_def unlinkSync_def b64_char_def fmdrop_fmupd_same)

text \<open>
  C1 at a rejected delivery. The request names one readable artifact; the provider
  rejects the message. The handler answers 500 with the provider's detail, marks the
  record \<open>failed\<close> and deletes the artifact file, but the AttachmentRecord it created
  for the record is still in the table when it returns: the \<open>catch\<close> block does not
  call \<open>deleteAttachmentsByEmailId\<close>, which the success path does
  (\<open>send_success_removes_attachment_records\<close>). The files are removed on both paths
  (\<open>send_removes_files\<close>).
\<close>

theorem failed_send_keeps_attachment_records:
  "snd (send_handler (\<lambda>m. Some ''Unauthorized'') 500
          (rq_att (Str ''/app/temp_uploads/u1-x.txt'')) w_att)
     = ServerError ''Failed to send email'' (Some ''Unauthorized'') \<and>
   map e_status (emails (w_db (fst (send_handler (\<lambda>m. Some ''Unauthorized'') 500
          (rq_att (Str ''/app/temp_uploads/u1-x.txt'')) w_att)))) = [Failed] \<and>
   readFileSync ''/app/temp_uploads/u1-x.txt''
     (w_fs (fst (send_handler (\<lambda>m. Some ''Unauthorized'') 500
          (rq_att (Str ''/app/temp_uploads/u1-x.txt'')) w_att))) = Inl ENOENT \<and>
   getAttachmentsByEmailId 1
     (w_db (fst (send_handler (\<lambda>m. Some ''Unauthorized'') 500
          (rq_att (Str ''/app/temp_uploads/u1-x.txt'')) w_att)))
     = [\<lparr> a_id = 1, a_email_id = 1, a_filename = ''x.txt'', a_content = [],
          a_content_type = ''text/plain'' \<rparr>]"
  by (simp add: rejected_send_sample readFileSync_def getAttachmentsByEmailId_def)

text \<open>
  C3 at a recipients list with zero elements (sender, subject and body present). An
  array is truthy, so \<open>!recipients\<close> does not hold and validation passes: whatever the
  provider answers, the response is not the validation error and the email table has
  one record more. A missing or empty sender, subject or body, and a missing or
  empty-string recipients field, are rejected with no record created
  (\<open>send_validation_rejects\<close>).
\<close>

theorem empty_recipient_list_creates_record:
  "length (emails (w_db (fst (send_handler sgSend now rq_no_recipients w))))
     = Suc (length (emails (w_db w))) \<and>
   (\<forall>e. snd (send_handler sgSend now rq_no_recipients w) \<noteq> BadRequest e)"
  by (simp add: send_handler_def send_prepare_def rq_no_recipients_def all_file_paths_def
      falsy_field_def saveEmail_def Let_def send_success_def send_catch_def
      updateEmailStatus_def deleteAttachmentsByEmailId_def split: option.splits)

end
